theory Spec2Isabelle
  imports Main "HOL-Library.Sublist" "HOL-Library.AList"
begin

section \<open>Data model\<close>

text \<open>
  A \<open>datetime\<close> is a clock reading in microseconds (the resolution of Python's
  \<open>datetime.utcnow()\<close>); a \<open>timedelta\<close> is a signed number of microseconds.
  Every function that reads the clock in the source takes the reading as an argument.
\<close>

type_synonym datetime = int
type_synonym timedelta = int

text \<open>
  Exceptions are values. \<open>HTTPException\<close> carries the status code, the detail and
  the headers (the empty list when the source passes none). The other constructors are
  the exceptions of the libraries that the source lets through or catches:
  \<open>JWTError\<close> for jose (with the subclass that was raised), \<open>UnknownHashError\<close>,
  \<open>MalformedHashError\<close> and \<open>PasswordValueError\<close> for passlib,
  \<open>IntegrityError\<close> for a constraint of the database refused at commit,
  \<open>ValidationError\<close> for pydantic.
\<close>

datatype jwt_error = InvalidToken | ExpiredSignature | InvalidClaims

datatype error =
    HTTPException nat string "(string \<times> string) list"
  | JWTError jwt_error
  | UnknownHashError
  | MalformedHashError
  | PasswordValueError
  | IntegrityError
  | ValidationError

text \<open>
  \<open>models/user.py\<close>, table \<open>users\<close>. The columns \<open>id\<close> and \<open>created_at\<close> are
  named \<open>id_user\<close> and \<open>created_at_user\<close> here, since the table of tasks has
  columns of the same names.
\<close>

record User =
  id_user :: int
  username :: string
  email :: string
  hashed_password :: string
  created_at_user :: datetime

text \<open>
  \<open>models/task.py\<close>, table \<open>tasks\<close>. \<open>title\<close> is an attribute that Python can set
  to \<open>None\<close>; the column is \<open>nullable=False\<close>, which the database enforces when
  the row is written. \<open>description\<close> and \<open>is_completed\<close> are nullable columns.
\<close>

record Task =
  id_task :: int
  title :: "string option"
  description :: "string option"
  is_completed :: "bool option"
  created_at :: datetime
  updated_at :: datetime
  user_id :: int

text \<open>
  The database is its two tables, each a list of rows in the order of insertion. No
  other state survives a request: SQLite gives a new row of an
  \<open>INTEGER PRIMARY KEY\<close> column the largest key in use plus one, and the key 1
  in an empty table.
\<close>

record database =
  users :: "User list"
  tasks :: "Task list"

definition next_pk :: "int list \<Rightarrow> int" where
  "next_pk ids = (case ids of [] \<Rightarrow> 1 | x # xs \<Rightarrow> fold max xs x + 1)"

text \<open>
  The constraints of the tables: the primary keys are unique, and so are the usernames
  and the emails of the users (\<open>unique=True\<close>).
\<close>

definition pk_unique :: "database \<Rightarrow> bool" where
  "pk_unique db \<longleftrightarrow> distinct (map id_task (tasks db)) \<and> distinct (map id_user (users db))"

definition names_unique :: "database \<Rightarrow> bool" where
  "names_unique db \<longleftrightarrow> distinct (map username (users db)) \<and> distinct (map email (users db))"

section \<open>Schemas of the task routes (\<open>schemas/task.py\<close>)\<close>

record TaskCreate =
  title_new :: string
  description_new :: "string option"

text \<open>
  \<open>TaskUpdate\<close>: each field is either absent from the request body (\<open>Unset\<close>) or
  given, possibly as \<open>null\<close>. \<open>model_dump(exclude_unset=True)\<close> keeps the given
  fields, in the order of their declaration.
\<close>

datatype 'a field = Unset | Given 'a

record TaskUpdate =
  title_upd :: "string option field"
  description_upd :: "string option field"
  is_completed_upd :: "bool option field"

datatype assignment =
    SetTitle "string option"
  | SetDescription "string option"
  | SetIsCompleted "bool option"

definition model_dump_exclude_unset :: "TaskUpdate \<Rightarrow> assignment list" where
  "model_dump_exclude_unset task_update =
     (case title_upd task_update of Unset \<Rightarrow> [] | Given v \<Rightarrow> [SetTitle v]) @
     (case description_upd task_update of Unset \<Rightarrow> [] | Given v \<Rightarrow> [SetDescription v]) @
     (case is_completed_upd task_update of Unset \<Rightarrow> [] | Given v \<Rightarrow> [SetIsCompleted v])"

fun setattr :: "assignment \<Rightarrow> Task \<Rightarrow> Task" where
  "setattr (SetTitle v) task = task\<lparr>title := v\<rparr>"
| "setattr (SetDescription v) task = task\<lparr>description := v\<rparr>"
| "setattr (SetIsCompleted v) task = task\<lparr>is_completed := v\<rparr>"

section \<open>Task routes (\<open>routes/tasks.py\<close>)\<close>

definition task_not_found :: error where
  "task_not_found = HTTPException 404 ''Task not found'' []"

text \<open>
  \<open>database.query(Task).filter(Task.id == task_id, Task.user_id == current_user.id).first()\<close>
\<close>

definition query_task :: "int \<Rightarrow> User \<Rightarrow> database \<Rightarrow> Task option" where
  "query_task task_id current_user db =
     find (\<lambda>t. id_task t = task_id \<and> user_id t = id_user current_user) (tasks db)"

text \<open>
  \<open>create_task\<close>: the row gets a fresh key, \<open>is_completed\<close> its default
  \<open>False\<close>, and both timestamps their default, the clock read while the INSERT is
  prepared.
\<close>

definition create_task :: "TaskCreate \<Rightarrow> User \<Rightarrow> database \<Rightarrow> datetime \<Rightarrow> (error + Task) \<times> database" where
  "create_task task current_user db now =
     (let new_task = \<lparr>id_task = next_pk (map id_task (tasks db)),
                      title = Some (title_new task),
                      description = description_new task,
                      is_completed = Some False,
                      created_at = now,
                      updated_at = now,
                      user_id = id_user current_user\<rparr>
      in (Inr new_task, db\<lparr>tasks := tasks db @ [new_task]\<rparr>))"

definition get_all_tasks :: "User \<Rightarrow> database \<Rightarrow> Task list" where
  "get_all_tasks current_user db = filter (\<lambda>t. user_id t = id_user current_user) (tasks db)"

definition get_task_by_id :: "int \<Rightarrow> User \<Rightarrow> database \<Rightarrow> error + Task" where
  "get_task_by_id task_id current_user db =
     (case query_task task_id current_user db of
        None \<Rightarrow> Inl task_not_found
      | Some task \<Rightarrow> Inr task)"

text \<open>
  The commit of \<open>update_task\<close>. The ORM compares each attribute that was set with the
  value it loaded and writes the columns that differ, in one UPDATE addressed by the
  primary key; \<open>onupdate=datetime.utcnow\<close> adds \<open>updated_at\<close> to that UPDATE. When no
  attribute differs no UPDATE is sent and the row keeps its \<open>updated_at\<close>. A
  \<open>title\<close> changed to \<open>None\<close> is refused by the NOT NULL constraint and the
  transaction is rolled back. \<open>database.refresh\<close> then reads the row back.
\<close>

definition modified :: "Task \<Rightarrow> Task \<Rightarrow> bool" where
  "modified loaded task \<longleftrightarrow>
     title task \<noteq> title loaded \<or> description task \<noteq> description loaded \<or>
     is_completed task \<noteq> is_completed loaded"

definition commit_update :: "Task \<Rightarrow> Task \<Rightarrow> database \<Rightarrow> datetime \<Rightarrow> (error + Task) \<times> database" where
  "commit_update loaded task db now =
     (if \<not> modified loaded task then (Inr loaded, db)
      else if title task \<noteq> title loaded \<and> title task = None then (Inl IntegrityError, db)
      else let row = task\<lparr>updated_at := now\<rparr>
           in (Inr row,
               db\<lparr>tasks := map (\<lambda>t. if id_task t = id_task loaded then row else t) (tasks db)\<rparr>))"

definition update_task :: "int \<Rightarrow> TaskUpdate \<Rightarrow> User \<Rightarrow> database \<Rightarrow> datetime \<Rightarrow> (error + Task) \<times> database" where
  "update_task task_id task_update current_user db now =
     (case query_task task_id current_user db of
        None \<Rightarrow> (Inl task_not_found, db)
      | Some task \<Rightarrow>
          (let update_data = model_dump_exclude_unset task_update
           in commit_update task (fold setattr update_data task) db now))"

text \<open>\<open>database.delete(task)\<close> is a DELETE addressed by the primary key.\<close>

definition delete_task :: "int \<Rightarrow> User \<Rightarrow> database \<Rightarrow> (error + unit) \<times> database" where
  "delete_task task_id current_user db =
     (case query_task task_id current_user db of
        None \<Rightarrow> (Inl task_not_found, db)
      | Some task \<Rightarrow> (Inr (), db\<lparr>tasks := filter (\<lambda>t. id_task t \<noteq> id_task task) (tasks db)\<rparr>))"

section \<open>Schemas of the authentication routes (\<open>schemas/user.py\<close>)\<close>

record UserCreate =
  username_new :: string
  email_new :: string
  password_new :: string

record UserLogin =
  username_login :: string
  password_login :: string

text \<open>
  \<open>UserResponse\<close> declares \<open>username\<close> and \<open>email\<close> (from \<open>UserBase\<close>),
  \<open>id\<close> and \<open>created_at\<close>. With \<open>from_attributes\<close> it is built by reading
  the attributes of these names from the ORM object.
\<close>

record UserResponse =
  username_out :: string
  email_out :: string
  id_out :: int
  created_at_out :: datetime

definition UserResponse_from_attributes :: "User \<Rightarrow> UserResponse" where
  "UserResponse_from_attributes user =
     \<lparr>username_out = username user, email_out = email user,
      id_out = id_user user, created_at_out = created_at_user user\<rparr>"

text \<open>Values of a JSON object or of a Python dictionary, and the body of a response.\<close>

datatype json = Str string | Num int | DateTime datetime | Null

type_synonym dict = "(string \<times> json) list"

definition UserResponse_json :: "UserResponse \<Rightarrow> dict" where
  "UserResponse_json r =
     [(''username'', Str (username_out r)), (''email'', Str (email_out r)),
      (''id'', Num (id_out r)), (''created_at'', DateTime (created_at_out r))]"

record 'tok Token =
  access_token :: 'tok
  token_type :: string

section \<open>Security service (\<open>services/security.py\<close>)\<close>

text \<open>
  The configuration read from the environment when the module is loaded.
  \<open>routes/auth.py\<close> reads \<open>ACCESS_TOKEN_EXPIRE_MINUTES\<close> from the same variable.
\<close>

record config =
  SECRET_KEY :: string
  ALGORITHM :: string
  ACCESS_TOKEN_EXPIRE_MINUTES :: int

text \<open>
  The two libraries are parameters. \<open>CryptContext\<close> is passlib's
  \<open>password_context\<close>: \<open>context_hash secret salt\<close> is \<open>hash\<close> with the salt it
  drew, and both functions may raise. \<open>jose\<close> is the module \<open>jose.jwt\<close>:
  \<open>jwt_decode token key algorithms now\<close> is \<open>decode\<close> run when the clock reads
  \<open>now\<close>. The source never looks inside a token, so its type is a parameter too.
\<close>

record CryptContext =
  context_hash :: "string \<Rightarrow> string \<Rightarrow> error + string"
  context_verify :: "string \<Rightarrow> string \<Rightarrow> error + bool"

record 'tok jose =
  jwt_encode :: "dict \<Rightarrow> string \<Rightarrow> string \<Rightarrow> 'tok"
  jwt_decode :: "'tok \<Rightarrow> string \<Rightarrow> string list \<Rightarrow> datetime \<Rightarrow> error + dict"

definition hash_password :: "CryptContext \<Rightarrow> string \<Rightarrow> string \<Rightarrow> error + string" where
  "hash_password password_context password salt = context_hash password_context password salt"

definition verify_password :: "CryptContext \<Rightarrow> string \<Rightarrow> string \<Rightarrow> error + bool" where
  "verify_password password_context plain_password hashed_password' =
     context_verify password_context plain_password hashed_password'"

definition minutes :: "int \<Rightarrow> timedelta" where
  "minutes m = m * 60000000"

text \<open>
  \<open>create_access_token\<close>. \<open>if expires_delta:\<close> is false for \<open>None\<close> and for a
  \<open>timedelta\<close> of zero. \<open>to_encode.update\<close> replaces the value of a key that is
  present and appends the key otherwise.
\<close>

definition create_access_token ::
  "'tok jose \<Rightarrow> config \<Rightarrow> dict \<Rightarrow> timedelta option \<Rightarrow> datetime \<Rightarrow> 'tok" where
  "create_access_token jwt cfg data expires_delta now =
     (let to_encode = data;
          expire = (case expires_delta of
                      Some d \<Rightarrow> if d \<noteq> 0 then now + d
                                else now + minutes (ACCESS_TOKEN_EXPIRE_MINUTES cfg)
                    | None \<Rightarrow> now + minutes (ACCESS_TOKEN_EXPIRE_MINUTES cfg));
          to_encode = AList.update ''exp'' (DateTime expire) to_encode
      in jwt_encode jwt to_encode (SECRET_KEY cfg) (ALGORITHM cfg))"

definition credentials_exception :: error where
  "credentials_exception =
     HTTPException 401 ''Could not validate credentials'' [(''WWW-Authenticate'', ''Bearer'')]"

text \<open>
  \<open>get_current_user\<close>. \<open>except JWTError\<close> catches every subclass of \<open>JWTError\<close>
  and nothing else. \<open>TokenData(username=username)\<close> accepts a string and refuses any
  other value with pydantic's \<open>ValidationError\<close>, which is not caught.
\<close>

definition get_current_user ::
  "'tok jose \<Rightarrow> config \<Rightarrow> 'tok \<Rightarrow> database \<Rightarrow> datetime \<Rightarrow> error + User" where
  "get_current_user jwt cfg token db now =
     (case jwt_decode jwt token (SECRET_KEY cfg) [ALGORITHM cfg] now of
        Inl (JWTError _) \<Rightarrow> Inl credentials_exception
      | Inl e \<Rightarrow> Inl e
      | Inr payload \<Rightarrow>
          (case map_of payload ''sub'' of
             None \<Rightarrow> Inl credentials_exception
           | Some Null \<Rightarrow> Inl credentials_exception
           | Some (Str name) \<Rightarrow>
               (case find (\<lambda>u. username u = name) (users db) of
                  None \<Rightarrow> Inl credentials_exception
                | Some user \<Rightarrow> Inr user)
           | Some _ \<Rightarrow> Inl ValidationError))"

section \<open>Authentication routes (\<open>routes/auth.py\<close>)\<close>

text \<open>
  The INSERT of a user row: \<open>username\<close> and \<open>email\<close> are \<open>unique=True\<close> and
  \<open>id\<close> is the primary key, so the commit of a row that repeats one of them raises
  \<open>IntegrityError\<close> and writes nothing.
\<close>

definition insert_user :: "User \<Rightarrow> database \<Rightarrow> error + database" where
  "insert_user row db =
     (if list_ex (\<lambda>u. username u = username row \<or> email u = email row \<or> id_user u = id_user row)
           (users db)
      then Inl IntegrityError
      else Inr (db\<lparr>users := users db @ [row]\<rparr>))"

definition register_user ::
  "CryptContext \<Rightarrow> UserCreate \<Rightarrow> database \<Rightarrow> datetime \<Rightarrow> string \<Rightarrow> (error + User) \<times> database" where
  "register_user password_context user db now salt =
     (case find (\<lambda>u. username u = username_new user) (users db) of
        Some existing_user_by_username \<Rightarrow>
          (Inl (HTTPException 400 ''Username already registered'' []), db)
      | None \<Rightarrow>
          (case find (\<lambda>u. email u = email_new user) (users db) of
             Some existing_user_by_email \<Rightarrow>
               (Inl (HTTPException 400 ''Email already registered'' []), db)
           | None \<Rightarrow>
               (case hash_password password_context (password_new user) salt of
                  Inl e \<Rightarrow> (Inl e, db)
                | Inr h \<Rightarrow>
                    (let new_user = \<lparr>id_user = next_pk (map id_user (users db)),
                                     username = username_new user,
                                     email = email_new user,
                                     hashed_password = h,
                                     created_at_user = now\<rparr>
                     in case insert_user new_user db of
                          Inl e \<Rightarrow> (Inl e, db)
                        | Inr db' \<Rightarrow> (Inr new_user, db')))))"

definition incorrect_username_or_password :: error where
  "incorrect_username_or_password =
     HTTPException 401 ''Incorrect username or password'' [(''WWW-Authenticate'', ''Bearer'')]"

text \<open>
  \<open>login_user\<close>. In \<open>not db_user or not verify_password(...)\<close> the password is
  verified only when the user was found; an exception of \<open>verify_password\<close> is not
  caught.
\<close>

definition login_user ::
  "CryptContext \<Rightarrow> 'tok jose \<Rightarrow> config \<Rightarrow> UserLogin \<Rightarrow> database \<Rightarrow> datetime \<Rightarrow> error + 'tok Token" where
  "login_user password_context jwt cfg user db now =
     (case find (\<lambda>u. username u = username_login user) (users db) of
        None \<Rightarrow> Inl incorrect_username_or_password
      | Some db_user \<Rightarrow>
          (case verify_password password_context (password_login user) (hashed_password db_user) of
             Inl e \<Rightarrow> Inl e
           | Inr False \<Rightarrow> Inl incorrect_username_or_password
           | Inr True \<Rightarrow>
               (let access_token_expires = minutes (ACCESS_TOKEN_EXPIRE_MINUTES cfg);
                    access_token' = create_access_token jwt cfg [(''sub'', Str (username db_user))]
                                      (Some access_token_expires) now
                in Inr \<lparr>access_token = access_token', token_type = ''bearer''\<rparr>)))"

definition get_current_user_info :: "User \<Rightarrow> User" where
  "get_current_user_info current_user = current_user"

section \<open>The routes as the framework runs them\<close>

text \<open>
  A route that declares \<open>Depends(get_current_user)\<close> runs its function only when the
  dependency returned a user; an exception of the dependency is the response. A
  \<open>response_model\<close> turns the returned object into the body. The body of the request
  has passed the validation of its schema before any of this runs.
\<close>

definition route_register ::
  "CryptContext \<Rightarrow> UserCreate \<Rightarrow> database \<Rightarrow> datetime \<Rightarrow> string \<Rightarrow> (error + dict) \<times> database" where
  "route_register password_context user db now salt =
     (case register_user password_context user db now salt of
        (Inl e, db') \<Rightarrow> (Inl e, db')
      | (Inr new_user, db') \<Rightarrow> (Inr (UserResponse_json (UserResponse_from_attributes new_user)), db'))"

definition route_me :: "'tok jose \<Rightarrow> config \<Rightarrow> 'tok \<Rightarrow> database \<Rightarrow> datetime \<Rightarrow> error + dict" where
  "route_me jwt cfg token db now =
     (case get_current_user jwt cfg token db now of
        Inl e \<Rightarrow> Inl e
      | Inr current_user \<Rightarrow>
          Inr (UserResponse_json (UserResponse_from_attributes (get_current_user_info current_user))))"

definition route_create_task ::
  "'tok jose \<Rightarrow> config \<Rightarrow> 'tok \<Rightarrow> TaskCreate \<Rightarrow> database \<Rightarrow> datetime \<Rightarrow> (error + Task) \<times> database" where
  "route_create_task jwt cfg token task db now =
     (case get_current_user jwt cfg token db now of
        Inl e \<Rightarrow> (Inl e, db)
      | Inr current_user \<Rightarrow> create_task task current_user db now)"

definition route_get_all_tasks ::
  "'tok jose \<Rightarrow> config \<Rightarrow> 'tok \<Rightarrow> database \<Rightarrow> datetime \<Rightarrow> error + Task list" where
  "route_get_all_tasks jwt cfg token db now =
     (case get_current_user jwt cfg token db now of
        Inl e \<Rightarrow> Inl e
      | Inr current_user \<Rightarrow> Inr (get_all_tasks current_user db))"

definition route_get_task_by_id ::
  "'tok jose \<Rightarrow> config \<Rightarrow> 'tok \<Rightarrow> int \<Rightarrow> database \<Rightarrow> datetime \<Rightarrow> error + Task" where
  "route_get_task_by_id jwt cfg token task_id db now =
     (case get_current_user jwt cfg token db now of
        Inl e \<Rightarrow> Inl e
      | Inr current_user \<Rightarrow> get_task_by_id task_id current_user db)"

definition route_update_task ::
  "'tok jose \<Rightarrow> config \<Rightarrow> 'tok \<Rightarrow> int \<Rightarrow> TaskUpdate \<Rightarrow> database \<Rightarrow> datetime \<Rightarrow> (error + Task) \<times> database" where
  "route_update_task jwt cfg token task_id task_update db now =
     (case get_current_user jwt cfg token db now of
        Inl e \<Rightarrow> (Inl e, db)
      | Inr current_user \<Rightarrow> update_task task_id task_update current_user db now)"

definition route_delete_task ::
  "'tok jose \<Rightarrow> config \<Rightarrow> 'tok \<Rightarrow> int \<Rightarrow> database \<Rightarrow> datetime \<Rightarrow> (error + unit) \<times> database" where
  "route_delete_task jwt cfg token task_id db now =
     (case get_current_user jwt cfg token db now of
        Inl e \<Rightarrow> (Inl e, db)
      | Inr current_user \<Rightarrow> delete_task task_id current_user db)"

section \<open>Deleting a user\<close>

text \<open>
  Modelled from the spec: no function of the source deletes a user; the source only
  declares the relationship \<open>User.tasks\<close> with \<open>cascade="all, delete-orphan"\<close>. The
  spec says that deleting a User cascades deletion of all owned Tasks: the tasks of the
  relationship, those whose \<open>user_id\<close> is the user's key, go with the user's row.
\<close>

definition delete_user :: "User \<Rightarrow> database \<Rightarrow> database" where
  "delete_user user db =
     db\<lparr>tasks := filter (\<lambda>t. user_id t \<noteq> id_user user) (tasks db),
        users := filter (\<lambda>u. id_user u \<noteq> id_user user) (users db)\<rparr>"

section \<open>What the proofs ask of the libraries\<close>

text \<open>
  A digest that \<open>hash\<close> returns is not the secret it was made from, and \<open>verify\<close>
  accepts the secret against it.
\<close>

definition hasher_round_trip :: "CryptContext \<Rightarrow> bool" where
  "hasher_round_trip password_context \<longleftrightarrow>
     (\<forall>secret salt h. context_hash password_context secret salt = Inr h \<longrightarrow>
        h \<noteq> secret \<and> context_verify password_context secret h = Inr True)"

text \<open>
  A token signed with the configured key and algorithm and decoded with them, not
  later than its \<open>exp\<close> claim, gives back a payload with the subject that was
  signed.
\<close>

definition jwt_round_trip :: "'tok jose \<Rightarrow> config \<Rightarrow> bool" where
  "jwt_round_trip jwt cfg \<longleftrightarrow>
     (\<forall>claims e name now.
        map_of claims ''exp'' = Some (DateTime e) \<and> map_of claims ''sub'' = Some (Str name) \<and> now \<le> e \<longrightarrow>
        (\<exists>payload. jwt_decode jwt (jwt_encode jwt claims (SECRET_KEY cfg) (ALGORITHM cfg))
                      (SECRET_KEY cfg) [ALGORITHM cfg] now = Inr payload \<and>
                   map_of payload ''sub'' = Some (Str name)))"

section \<open>Reference instances of the libraries\<close>

text \<open>
  Instances on which the development is evaluated. Their cryptography is symbolic: a
  digest spells out the salt and the secret it was made from, and a token is the term
  of its claims, key and algorithm, so that neither can be forged. What they keep of
  the libraries is the interface: passlib identifies a bcrypt digest by its prefix and
  raises \<open>UnknownHashError\<close> for a digest that no scheme of the context identifies,
  and refuses a secret that holds a NUL character; jose writes a \<open>datetime\<close> claim
  as whole seconds, and raises a subclass of \<open>JWTError\<close> for a token it cannot
  verify, for one whose \<open>exp\<close> is past, and for a subject that is not a string.
\<close>

definition bcrypt_ident_values :: "string list" where
  "bcrypt_ident_values = [''$2$'', ''$2a$'', ''$2x$'', ''$2y$'', ''$2b$'']"

definition bcrypt_identify :: "string \<Rightarrow> bool" where
  "bcrypt_identify h = list_ex (\<lambda>ident. prefix ident h) bcrypt_ident_values"

definition reference_hash :: "string \<Rightarrow> string \<Rightarrow> error + string" where
  "reference_hash secret salt =
     (if CHR 0x00 \<in> set secret then Inl PasswordValueError
      else Inr (''$2b$12$'' @ take 22 (salt @ replicate 22 (CHR ''.'')) @ secret))"

definition reference_verify :: "string \<Rightarrow> string \<Rightarrow> error + bool" where
  "reference_verify secret h =
     (if \<not> bcrypt_identify h then Inl UnknownHashError
      else if CHR 0x00 \<in> set secret then Inl PasswordValueError
      else if length h < 29 then Inl MalformedHashError
      else Inr (drop 29 h = secret))"

definition reference_context :: CryptContext where
  "reference_context = \<lparr>context_hash = reference_hash, context_verify = reference_verify\<rparr>"

datatype reference_token = Signed dict string string | Unsigned string

definition intdate :: "string \<Rightarrow> json \<Rightarrow> json" where
  "intdate k v =
     (case v of
        DateTime d \<Rightarrow> if k \<in> {''exp'', ''iat'', ''nbf''} then Num (d div 1000000) else v
      | _ \<Rightarrow> v)"

definition reference_encode :: "dict \<Rightarrow> string \<Rightarrow> string \<Rightarrow> reference_token" where
  "reference_encode claims key alg = Signed (map (\<lambda>(k, v). (k, intdate k v)) claims) key alg"

definition reference_decode ::
  "reference_token \<Rightarrow> string \<Rightarrow> string list \<Rightarrow> datetime \<Rightarrow> error + dict" where
  "reference_decode tok key algorithms now =
     (case tok of
        Unsigned _ \<Rightarrow> Inl (JWTError InvalidToken)
      | Signed claims k alg \<Rightarrow>
          if k \<noteq> key \<or> alg \<notin> set algorithms then Inl (JWTError InvalidToken)
          else if (case map_of claims ''exp'' of
                     Some (Num e) \<Rightarrow> e < now div 1000000 | _ \<Rightarrow> False)
          then Inl (JWTError ExpiredSignature)
          else (case map_of claims ''sub'' of
                  None \<Rightarrow> Inr claims
                | Some (Str _) \<Rightarrow> Inr claims
                | Some _ \<Rightarrow> Inl (JWTError InvalidClaims)))"

definition reference_jose :: "reference_token jose" where
  "reference_jose = \<lparr>jwt_encode = reference_encode, jwt_decode = reference_decode\<rparr>"

section \<open>A database of two users, for evaluation\<close>

definition default_config :: config where
  "default_config =
     \<lparr>SECRET_KEY = ''your-secret-key'', ALGORITHM = ''HS256'', ACCESS_TOKEN_EXPIRE_MINUTES = 30\<rparr>"

definition alice :: User where
  "alice = \<lparr>id_user = 1, username = ''alice'', email = ''a@x.com'',
            hashed_password = ''$2b$12$saltsaltsaltsaltsalt..secret1'', created_at_user = 1000\<rparr>"

definition bob :: User where
  "bob = \<lparr>id_user = 2, username = ''bob'', email = ''b@x.com'',
          hashed_password = ''$2b$12$pepperpepperpepperpepphunter2'', created_at_user = 2000\<rparr>"

definition buy_milk :: Task where
  "buy_milk = \<lparr>id_task = 1, title = Some ''Buy milk'', description = None,
               is_completed = Some False, created_at = 3000, updated_at = 3000, user_id = 1\<rparr>"

definition pay_rent :: Task where
  "pay_rent = \<lparr>id_task = 2, title = Some ''Pay rent'', description = Some ''before Friday'',
               is_completed = Some True, created_at = 4000, updated_at = 5000, user_id = 2\<rparr>"

definition two_users :: database where
  "two_users = \<lparr>users = [alice, bob], tasks = [buy_milk, pay_rent]\<rparr>"

definition only_completed :: TaskUpdate where
  "only_completed = \<lparr>title_upd = Unset, description_upd = Unset, is_completed_upd = Given (Some True)\<rparr>"

definition call_mum :: TaskCreate where
  "call_mum = \<lparr>title_new = ''Call mum'', description_new = None\<rparr>"



definition carol_new :: UserCreate where
  "carol_new = \<lparr>username_new = ''carol'', email_new = ''c@x.com'', password_new = ''s3cret!''\<rparr>"

definition alice_again :: UserCreate where
  "alice_again = \<lparr>username_new = ''alice'', email_new = ''other@x.com'', password_new = ''s3cret!''\<rparr>"

definition alice_login :: UserLogin where
  "alice_login = \<lparr>username_login = ''alice'', password_login = ''secret1''\<rparr>"

definition carol_token :: reference_token where
  "carol_token = Signed [(''sub'', Str ''carol''), (''exp'', Num 1800)] ''your-secret-key'' ''HS256''"

definition alice_token :: reference_token where
  "alice_token = Signed [(''sub'', Str ''alice''), (''exp'', Num 1800)] ''your-secret-key'' ''HS256''"

definition forged_token :: reference_token where
  "forged_token = Signed [(''sub'', Str ''alice''), (''exp'', Num 1800)] ''guessed-key'' ''HS256''"

definition anonymous_token :: reference_token where
  "anonymous_token = Signed [(''exp'', Num 1800)] ''your-secret-key'' ''HS256''"




section \<open>Primary keys and ownership\<close>

lemma fold_max_start: "a \<le> fold max ids (a::int)"
proof (induction ids arbitrary: a)
  case Nil
  then show ?case by simp
next
  case (Cons y ys)
  have "a \<le> max y a" by simp
  also have "\<dots> \<le> fold max ys (max y a)" by (rule Cons.IH)
  finally show ?case by simp
qed

lemma fold_max_ge: "x \<in> set ids \<Longrightarrow> x \<le> fold max ids (a::int)"
proof (induction ids arbitrary: a)
  case Nil
  then show ?case by simp
next
  case (Cons y ys)
  show ?case
  proof (cases "x = y")
    case True
    have "y \<le> max y a" by simp
    also have "\<dots> \<le> fold max ys (max y a)" by (rule fold_max_start)
    finally show ?thesis using True by simp
  next
    case False
    with Cons.prems have "x \<in> set ys" by simp
    then show ?thesis using Cons.IH by simp
  qed
qed

lemma next_pk_greater: "x \<in> set ids \<Longrightarrow> x < next_pk ids"
proof (cases ids)
  case Nil
  assume "x \<in> set ids"
  with Nil show ?thesis by simp
next
  case (Cons y ys)
  assume "x \<in> set ids"
  with Cons have "x = y \<or> x \<in> set ys" by auto
  then have "x \<le> fold max ys y"
    using fold_max_start [of y ys] fold_max_ge [of x ys y] by auto
  with Cons show ?thesis by (simp add: next_pk_def)
qed

lemma next_pk_fresh: "next_pk ids \<notin> set ids"
  using next_pk_greater [of "next_pk ids" ids] by auto




lemma fold_setattr_frame:
  "id_task (fold setattr as task) = id_task task \<and> user_id (fold setattr as task) = user_id task
   \<and> created_at (fold setattr as task) = created_at task \<and> updated_at (fold setattr as task) = updated_at task"
proof (induction as arbitrary: task)
  case Nil
  then show ?case by simp
next
  case (Cons a as)
  show ?case using Cons.IH [of "setattr a task"] by (cases a) simp_all
qed







lemma update_task_users: "users (snd (update_task task_id upd u db now)) = users db"
  by (simp add: update_task_def commit_update_def Let_def split: option.splits)

lemma delete_task_users: "users (snd (delete_task task_id u db)) = users db"
  by (simp add: delete_task_def split: option.splits)





section \<open>Login and registration\<close>

lemma find_username_None:
  "(find (\<lambda>u. username u = name) us = None) = (\<not> (\<exists>u \<in> set us. username u = name))"
  by (auto simp: find_None_iff)


lemma bcrypt_identify_2b: "bcrypt_identify (''$2b$'' @ rest)"
  by (simp add: bcrypt_identify_def bcrypt_ident_values_def)


lemma list_ex_set: "list_ex P xs = (\<exists>x \<in> set xs. P x)"
  by (simp add: list_ex_iff)

lemma find_append:
  "find P (xs @ ys) = (case find P xs of None \<Rightarrow> find P ys | Some x \<Rightarrow> Some x)"
  by (induction xs) simp_all

lemma find_email_None:
  "(find (\<lambda>u. email u = e) us = None) = (\<not> (\<exists>u \<in> set us. email u = e))"
  by (auto simp: find_None_iff)

lemma insert_user_fresh:
  assumes "\<not> (\<exists>u \<in> set (users db). username u = username row)"
    and "\<not> (\<exists>u \<in> set (users db). email u = email row)"
    and "id_user row = next_pk (map id_user (users db))"
  shows "insert_user row db = Inr (db\<lparr>users := users db @ [row]\<rparr>)"
proof -
  have "id_user row \<notin> set (map id_user (users db))"
    using next_pk_fresh [of "map id_user (users db)"] assms(3) by simp
  then have "\<not> (\<exists>u \<in> set (users db). id_user u = id_user row)" by (auto simp: image_iff)
  with assms(1,2) show ?thesis by (auto simp: insert_user_def list_ex_set)
qed

lemma register_user_taken:
  assumes "\<exists>u \<in> set (users db). username u = username_new user \<or> email u = email_new user"
  shows "\<exists>detail. register_user password_context user db now salt = (Inl (HTTPException 400 detail []), db)"
proof (cases "find (\<lambda>u. username u = username_new user) (users db)")
  case (Some a)
  then show ?thesis by (simp add: register_user_def)
next
  case None
  with assms have "\<exists>u \<in> set (users db). email u = email_new user"
    by (auto simp: find_username_None)
  then obtain b where "find (\<lambda>u. email u = email_new user) (users db) = Some b"
    using find_email_None [of "email_new user" "users db"] by fastforce
  with None show ?thesis by (simp add: register_user_def)
qed

lemma register_user_fresh:
  assumes "\<not> (\<exists>u \<in> set (users db). username u = username_new user \<or> email u = email_new user)"
    and "hash_password password_context (password_new user) salt = Inr h"
  shows "register_user password_context user db now salt
           = (Inr \<lparr>id_user = next_pk (map id_user (users db)),
                   username = username_new user, email = email_new user,
                   hashed_password = h, created_at_user = now\<rparr>,
              db\<lparr>users := users db @ [\<lparr>id_user = next_pk (map id_user (users db)),
                   username = username_new user, email = email_new user,
                   hashed_password = h, created_at_user = now\<rparr>]\<rparr>)"
proof -
  let ?new = "\<lparr>id_user = next_pk (map id_user (users db)),
               username = username_new user, email = email_new user,
               hashed_password = h, created_at_user = now\<rparr>"
  from assms(1) have n: "find (\<lambda>u. username u = username_new user) (users db) = None"
    "find (\<lambda>u. email u = email_new user) (users db) = None"
    by (auto simp: find_username_None find_email_None)
  have "insert_user ?new db = Inr (db\<lparr>users := users db @ [?new]\<rparr>)"
    using assms(1) by (intro insert_user_fresh) auto
  with n assms(2) show ?thesis by (simp add: register_user_def Let_def)
qed

lemma register_user_hash_raises:
  assumes "\<not> (\<exists>u \<in> set (users db). username u = username_new user \<or> email u = email_new user)"
    and "hash_password password_context (password_new user) salt = Inl e"
  shows "register_user password_context user db now salt = (Inl e, db)"
proof -
  from assms(1) have "find (\<lambda>u. username u = username_new user) (users db) = None"
    "find (\<lambda>u. email u = email_new user) (users db) = None"
    by (auto simp: find_username_None find_email_None)
  with assms(2) show ?thesis by (simp add: register_user_def)
qed

text \<open>
  Claim C3. A registration whose username or email is taken fails with status 400 and
  returns the database it was given. Every registration either fails and returns the
  database it was given, or succeeds and returns the database with exactly one more
  row of users, the new user, appended.
\<close>

theorem register_user_all_or_nothing:
  "((\<exists>u \<in> set (users db). username u = username_new user \<or> email u = email_new user) \<longrightarrow>
      (\<exists>detail. register_user password_context user db now salt
                  = (Inl (HTTPException 400 detail []), db)))
   \<and> ((\<exists>e. register_user password_context user db now salt = (Inl e, db))
      \<or> (\<exists>new_user. register_user password_context user db now salt
                        = (Inr new_user, db\<lparr>users := users db @ [new_user]\<rparr>)
            \<and> username new_user = username_new user \<and> email new_user = email_new user))"
proof (intro conjI impI)
  assume "\<exists>u \<in> set (users db). username u = username_new user \<or> email u = email_new user"
  then show "\<exists>detail. register_user password_context user db now salt
                  = (Inl (HTTPException 400 detail []), db)"
    by (rule register_user_taken)
next
  show "(\<exists>e. register_user password_context user db now salt = (Inl e, db))
      \<or> (\<exists>new_user. register_user password_context user db now salt
                        = (Inr new_user, db\<lparr>users := users db @ [new_user]\<rparr>)
            \<and> username new_user = username_new user \<and> email new_user = email_new user)"
  proof (cases "\<exists>u \<in> set (users db). username u = username_new user \<or> email u = email_new user")
    case True
    from register_user_taken [OF this] show ?thesis by blast
  next
    case unused: False
    show ?thesis
    proof (cases "hash_password password_context (password_new user) salt")
      case (Inl e)
      from register_user_hash_raises [OF unused this] show ?thesis by blast
    next
      case (Inr h)
      from register_user_fresh [OF unused this] show ?thesis by simp
    qed
  qed
qed

theorem register_user_all_or_nothing_witness:
  "(\<exists>u \<in> set (users two_users).
       username u = username_new alice_again \<or> email u = email_new alice_again)
   \<and> register_user reference_context alice_again two_users 9000 ''abc''
       = (Inl (HTTPException 400 ''Username already registered'' []), two_users)"
proof -
  have h: "\<exists>u \<in> set (users two_users).
       username u = username_new alice_again \<or> email u = email_new alice_again"
    by (simp add: two_users_def alice_def alice_again_def)
  have "find (\<lambda>u. username u = username_new alice_again) (users two_users) = Some alice"
    by (simp add: two_users_def alice_def alice_again_def)
  then have "fst (register_user reference_context alice_again two_users 9000 ''abc'')
          = Inl (HTTPException 400 ''Username already registered'' [])"
    by (simp add: register_user_def)
  with h register_user_all_or_nothing [of two_users alice_again reference_context 9000 "''abc''"]
  show ?thesis by auto
qed

lemma reference_hasher_round_trip: "hasher_round_trip reference_context"
proof -
  have "h \<noteq> secret \<and> reference_verify secret h = Inr True"
    if "reference_hash secret salt = Inr h" for secret salt h
  proof -
    define s where "s = take 22 (salt @ replicate 22 (CHR ''.''))"
    have len: "length s = 22" by (simp add: s_def)
    from that have nul: "CHR 0x00 \<notin> set secret" and h: "h = ''$2b$'' @ ''12$'' @ s @ secret"
      by (auto simp: reference_hash_def s_def split: if_splits)
    have "length h = 29 + length secret" using len by (simp add: h)
    then have "h \<noteq> secret" by auto
    moreover have "bcrypt_identify h" unfolding h by (rule bcrypt_identify_2b)
    moreover have "drop 29 h = secret" using len by (simp add: h)
    moreover have "\<not> length h < 29" using len by (simp add: h)
    ultimately show ?thesis using nul by (simp add: reference_verify_def)
  qed
  then show ?thesis by (simp add: hasher_round_trip_def reference_context_def)
qed

text \<open>
  Claim C5. For a hasher with the round trip property and a registration whose
  username and email are unused: either the hasher raised and nothing was written, or
  the new user is stored, the digest stored for it is not the plaintext password, and
  \<open>verify_password\<close> accepts the plaintext against that digest.
\<close>

theorem registered_password_round_trip:
  assumes "hasher_round_trip password_context"
    and "\<not> (\<exists>u \<in> set (users db). username u = username_new user \<or> email u = email_new user)"
  shows "(\<exists>e. hash_password password_context (password_new user) salt = Inl e
            \<and> register_user password_context user db now salt = (Inl e, db))
       \<or> (\<exists>new_user db'. register_user password_context user db now salt = (Inr new_user, db')
            \<and> find (\<lambda>u. username u = username_new user) (users db') = Some new_user
            \<and> hashed_password new_user \<noteq> password_new user
            \<and> verify_password password_context (password_new user) (hashed_password new_user) = Inr True)"
proof (cases "hash_password password_context (password_new user) salt")
  case (Inl e)
  from assms(2) have "find (\<lambda>u. username u = username_new user) (users db) = None"
    "find (\<lambda>u. email u = email_new user) (users db) = None"
    by (auto simp: find_username_None find_email_None)
  with Inl show ?thesis by (simp add: register_user_def)
next
  case (Inr h)
  let ?new = "\<lparr>id_user = next_pk (map id_user (users db)),
               username = username_new user, email = email_new user,
               hashed_password = h, created_at_user = now\<rparr>"
  have reg: "register_user password_context user db now salt
               = (Inr ?new, db\<lparr>users := users db @ [?new]\<rparr>)"
    by (rule register_user_fresh [OF assms(2) Inr])
  from assms(2) have "find (\<lambda>u. username u = username_new user) (users db) = None"
    by (auto simp: find_username_None)
  then have f: "find (\<lambda>u. username u = username_new user) (users db @ [?new]) = Some ?new"
    by (simp add: find_append)
  from assms(1) Inr have "h \<noteq> password_new user
      \<and> context_verify password_context (password_new user) h = Inr True"
    by (simp add: hasher_round_trip_def hash_password_def)
  with reg f show ?thesis by (simp add: verify_password_def)
qed

theorem registered_password_round_trip_witness:
  "hasher_round_trip reference_context
   \<and> \<not> (\<exists>u \<in> set (users two_users).
           username u = username_new carol_new \<or> email u = email_new carol_new)
   \<and> (\<exists>new_user db'. register_user reference_context carol_new two_users 9000 ''abcdefghijklmnopqrstuv''
            = (Inr new_user, db')
        \<and> hashed_password new_user \<noteq> password_new carol_new
        \<and> verify_password reference_context (password_new carol_new) (hashed_password new_user)
            = Inr True)"
proof -
  have h: "\<not> (\<exists>u \<in> set (users two_users).
           username u = username_new carol_new \<or> email u = email_new carol_new)"
    by (simp add: two_users_def alice_def bob_def carol_new_def)
  have ok: "hash_password reference_context (password_new carol_new) ''abcdefghijklmnopqrstuv''
              = Inr ''$2b$12$abcdefghijklmnopqrstuvs3cret!''"
    by (simp add: hash_password_def reference_context_def reference_hash_def carol_new_def)
  from registered_password_round_trip [OF reference_hasher_round_trip h,
      of "''abcdefghijklmnopqrstuv''" 9000] ok
  show ?thesis using reference_hasher_round_trip h by auto
qed

section \<open>Tokens\<close>

lemma expire_login:
  "create_access_token jwt cfg [(''sub'', Str name)]
     (Some (minutes (ACCESS_TOKEN_EXPIRE_MINUTES cfg))) now
   = jwt_encode jwt [(''sub'', Str name),
                     (''exp'', DateTime (now + minutes (ACCESS_TOKEN_EXPIRE_MINUTES cfg)))]
       (SECRET_KEY cfg) (ALGORITHM cfg)"
  by (simp add: create_access_token_def Let_def)

lemma login_user_correct:
  assumes "find (\<lambda>u. username u = username_login creds) (users db) = Some db_user"
    and "verify_password password_context (password_login creds) (hashed_password db_user) = Inr True"
  shows "login_user password_context jwt cfg creds db now
           = Inr \<lparr>access_token = jwt_encode jwt [(''sub'', Str (username db_user)),
                     (''exp'', DateTime (now + minutes (ACCESS_TOKEN_EXPIRE_MINUTES cfg)))]
                       (SECRET_KEY cfg) (ALGORITHM cfg),
                  token_type = ''bearer''\<rparr>"
  using assms by (simp add: login_user_def Let_def expire_login)

lemma get_current_user_rejects:
  "jwt_decode jwt token (SECRET_KEY cfg) [ALGORITHM cfg] now = Inl (JWTError k) \<Longrightarrow>
     get_current_user jwt cfg token db now = Inl credentials_exception"
  by (simp add: get_current_user_def)

lemma get_current_user_no_subject:
  "jwt_decode jwt token (SECRET_KEY cfg) [ALGORITHM cfg] now = Inr payload \<Longrightarrow>
   map_of payload ''sub'' = None \<Longrightarrow>
     get_current_user jwt cfg token db now = Inl credentials_exception"
  by (simp add: get_current_user_def)

lemma get_current_user_subject:
  "jwt_decode jwt token (SECRET_KEY cfg) [ALGORITHM cfg] now = Inr payload \<Longrightarrow>
   map_of payload ''sub'' = Some (Str name) \<Longrightarrow>
     get_current_user jwt cfg token db now
       = (case find (\<lambda>u. username u = name) (users db) of
            None \<Rightarrow> Inl credentials_exception | Some user \<Rightarrow> Inr user)"
  by (simp add: get_current_user_def)

text \<open>
  Claim C6. For a JWT library with the round trip property under the configured key
  and algorithm, and a login with correct
  credentials (the username has a row and the hasher verifies the password against its
  digest): \<open>login_user\<close> returns a bearer token, and \<open>get_current_user\<close> on that
  token, at any clock reading up to the expiry that login set, returns the user who
  logged in, whose username is the one of the login. A token for which the library
  raises a \<open>JWTError\<close> (bad signature, malformed structure, expired) and a token
  whose payload has no subject are both rejected with the credentials exception.
\<close>

theorem login_token_round_trip:
  assumes "jwt_round_trip jwt cfg"
    and "find (\<lambda>u. username u = username_login creds) (users db) = Some db_user"
    and "verify_password password_context (password_login creds) (hashed_password db_user) = Inr True"
  shows "(\<exists>tok. login_user password_context jwt cfg creds db now = Inr tok
            \<and> token_type tok = ''bearer''
            \<and> (\<forall>now'. now' \<le> now + minutes (ACCESS_TOKEN_EXPIRE_MINUTES cfg) \<longrightarrow>
                  get_current_user jwt cfg (access_token tok) db now' = Inr db_user
                  \<and> username db_user = username_login creds))
       \<and> (\<forall>token k now'. jwt_decode jwt token (SECRET_KEY cfg) [ALGORITHM cfg] now' = Inl (JWTError k) \<longrightarrow>
             get_current_user jwt cfg token db now' = Inl credentials_exception)
       \<and> (\<forall>token payload now'. jwt_decode jwt token (SECRET_KEY cfg) [ALGORITHM cfg] now' = Inr payload
               \<and> map_of payload ''sub'' = None \<longrightarrow>
             get_current_user jwt cfg token db now' = Inl credentials_exception)"
proof (intro conjI)
  let ?exp = "now + minutes (ACCESS_TOKEN_EXPIRE_MINUTES cfg)"
  let ?claims = "[(''sub'', Str (username db_user)), (''exp'', DateTime ?exp)]"
  let ?tok = "\<lparr>access_token = jwt_encode jwt ?claims (SECRET_KEY cfg) (ALGORITHM cfg),
               token_type = ''bearer''\<rparr>"
  have name: "username db_user = username_login creds"
    using assms(2) by (auto simp: find_Some_iff)
  have login: "login_user password_context jwt cfg creds db now = Inr ?tok"
    by (rule login_user_correct [OF assms(2,3)])
  have valid: "get_current_user jwt cfg (access_token ?tok) db now' = Inr db_user"
    if "now' \<le> ?exp" for now'
  proof -
    have "map_of ?claims ''exp'' = Some (DateTime ?exp)"
      "map_of ?claims ''sub'' = Some (Str (username db_user))" by simp_all
    with assms(1) that obtain payload where
      d: "jwt_decode jwt (jwt_encode jwt ?claims (SECRET_KEY cfg) (ALGORITHM cfg))
            (SECRET_KEY cfg) [ALGORITHM cfg] now' = Inr payload"
      and s: "map_of payload ''sub'' = Some (Str (username db_user))"
      unfolding jwt_round_trip_def by blast
    from get_current_user_subject [OF _ s, of jwt "access_token ?tok" cfg now' db] d
    show ?thesis using assms(2) name by simp
  qed
  show "\<exists>tok. login_user password_context jwt cfg creds db now = Inr tok
            \<and> token_type tok = ''bearer''
            \<and> (\<forall>now'. now' \<le> ?exp \<longrightarrow>
                  get_current_user jwt cfg (access_token tok) db now' = Inr db_user
                  \<and> username db_user = username_login creds)"
    using login valid name by (intro exI [of _ ?tok]) simp
  show "\<forall>token k now'. jwt_decode jwt token (SECRET_KEY cfg) [ALGORITHM cfg] now' = Inl (JWTError k) \<longrightarrow>
             get_current_user jwt cfg token db now' = Inl credentials_exception"
    by (simp add: get_current_user_rejects)
  show "\<forall>token payload now'. jwt_decode jwt token (SECRET_KEY cfg) [ALGORITHM cfg] now' = Inr payload
               \<and> map_of payload ''sub'' = None \<longrightarrow>
             get_current_user jwt cfg token db now' = Inl credentials_exception"
    by (simp add: get_current_user_no_subject)
qed

lemma map_of_intdate:
  "map_of (map (\<lambda>(k, v). (k, intdate k v)) claims) k = map_option (intdate k) (map_of claims k)"
  by (induction claims) auto

lemma reference_jwt_round_trip: "jwt_round_trip reference_jose cfg"
proof -
  have "reference_decode (reference_encode claims key alg) key [alg] now
          = Inr (map (\<lambda>(k, v). (k, intdate k v)) claims)
        \<and> map_of (map (\<lambda>(k, v). (k, intdate k v)) claims) ''sub'' = Some (Str name)"
    if e: "map_of claims ''exp'' = Some (DateTime e)"
      and s: "map_of claims ''sub'' = Some (Str name)" and t: "now \<le> e"
    for claims key alg e name and now :: int
  proof -
    let ?c = "map (\<lambda>(k, v). (k, intdate k v)) claims"
    have "map_of ?c ''exp'' = map_option (intdate ''exp'') (map_of claims ''exp'')"
      by (rule map_of_intdate)
    then have e': "map_of ?c ''exp'' = Some (Num (e div 1000000))"
      by (simp add: e intdate_def)
    have "map_of ?c ''sub'' = map_option (intdate ''sub'') (map_of claims ''sub'')"
      by (rule map_of_intdate)
    then have s': "map_of ?c ''sub'' = Some (Str name)"
      by (simp add: s intdate_def)
    have "\<not> e div 1000000 < now div 1000000"
      using t by (simp add: zdiv_mono1 not_less)
    with e' s' show ?thesis by (simp add: reference_decode_def reference_encode_def)
  qed
  then show ?thesis unfolding jwt_round_trip_def reference_jose_def by auto
qed

theorem login_token_round_trip_witness:
  "jwt_round_trip reference_jose default_config
   \<and> find (\<lambda>u. username u = username_login alice_login) (users two_users) = Some alice
   \<and> verify_password reference_context (password_login alice_login) (hashed_password alice) = Inr True
   \<and> login_user reference_context reference_jose default_config alice_login two_users 10000
       = Inr \<lparr>access_token = alice_token, token_type = ''bearer''\<rparr>
   \<and> get_current_user reference_jose default_config alice_token two_users 1800000000 = Inr alice
   \<and> get_current_user reference_jose default_config alice_token two_users 1801000000
       = Inl credentials_exception
   \<and> get_current_user reference_jose default_config forged_token two_users 20000
       = Inl credentials_exception
   \<and> get_current_user reference_jose default_config (Unsigned ''header.payload'') two_users 20000
       = Inl credentials_exception
   \<and> get_current_user reference_jose default_config anonymous_token two_users 20000
       = Inl credentials_exception"
proof -
  have h1: "find (\<lambda>u. username u = username_login alice_login) (users two_users) = Some alice"
    by (simp add: two_users_def alice_def alice_login_def)
  have h2: "verify_password reference_context (password_login alice_login) (hashed_password alice)
              = Inr True"
    by (simp add: verify_password_def reference_context_def reference_verify_def alice_def
        alice_login_def bcrypt_identify_def bcrypt_ident_values_def)
  note inst = login_token_round_trip [OF reference_jwt_round_trip h1 h2,
      where cfg = default_config and now = 10000]
  have login: "login_user reference_context reference_jose default_config alice_login two_users 10000
       = Inr \<lparr>access_token = alice_token, token_type = ''bearer''\<rparr>"
    using h1 h2
    by (simp add: login_user_def create_access_token_def Let_def reference_jose_def
        reference_encode_def intdate_def default_config_def minutes_def alice_token_def alice_def)
  have d1: "jwt_decode reference_jose alice_token (SECRET_KEY default_config)
              [ALGORITHM default_config] 1801000000 = Inl (JWTError ExpiredSignature)"
    by (simp add: reference_jose_def reference_decode_def alice_token_def default_config_def)
  have d2: "jwt_decode reference_jose forged_token (SECRET_KEY default_config)
              [ALGORITHM default_config] 20000 = Inl (JWTError InvalidToken)"
    by (simp add: reference_jose_def reference_decode_def forged_token_def default_config_def)
  have d3: "jwt_decode reference_jose (Unsigned ''header.payload'') (SECRET_KEY default_config)
              [ALGORITHM default_config] 20000 = Inl (JWTError InvalidToken)"
    by (simp add: reference_jose_def reference_decode_def)
  have d4: "jwt_decode reference_jose anonymous_token (SECRET_KEY default_config)
              [ALGORITHM default_config] 20000 = Inr [(''exp'', Num 1800)]
            \<and> map_of [(''exp'', Num 1800)] ''sub'' = None"
    by (simp add: reference_jose_def reference_decode_def anonymous_token_def default_config_def)
  have e: "(1800000000::int) \<le> 10000 + minutes (ACCESS_TOKEN_EXPIRE_MINUTES default_config)"
    by (simp add: minutes_def default_config_def)
  from inst login e have "get_current_user reference_jose default_config alice_token two_users 1800000000 = Inr alice"
    by auto
  moreover from inst d1 have "get_current_user reference_jose default_config alice_token two_users 1801000000
       = Inl credentials_exception" by blast
  moreover from inst d2 have "get_current_user reference_jose default_config forged_token two_users 20000
       = Inl credentials_exception" by blast
  moreover from inst d3 have "get_current_user reference_jose default_config (Unsigned ''header.payload'') two_users 20000
       = Inl credentials_exception" by blast
  moreover from inst d4 have "get_current_user reference_jose default_config anonymous_token two_users 20000
       = Inl credentials_exception" by blast
  ultimately show ?thesis using reference_jwt_round_trip h1 h2 login by simp
qed

section \<open>A subject with no user\<close>

text \<open>
  Claim C10. A token that the library decodes, whose subject names a username that no
  row has, is rejected by \<open>get_current_user\<close> with status 401 and detail "Could not
  validate credentials", the same exception as for a token the library refuses; every
  task route then answers with that exception and leaves the database as it was.
\<close>

theorem unknown_subject_rejected:
  assumes "jwt_decode jwt token (SECRET_KEY cfg) [ALGORITHM cfg] now = Inr payload"
    and "map_of payload ''sub'' = Some (Str name)"
    and "\<not> (\<exists>u \<in> set (users db). username u = name)"
  shows "get_current_user jwt cfg token db now
           = Inl (HTTPException 401 ''Could not validate credentials'' [(''WWW-Authenticate'', ''Bearer'')])
       \<and> (\<forall>bad k. jwt_decode jwt bad (SECRET_KEY cfg) [ALGORITHM cfg] now = Inl (JWTError k) \<longrightarrow>
             get_current_user jwt cfg bad db now = get_current_user jwt cfg token db now)
       \<and> route_create_task jwt cfg token task db now = (Inl credentials_exception, db)
       \<and> route_get_all_tasks jwt cfg token db now = Inl credentials_exception
       \<and> route_get_task_by_id jwt cfg token task_id db now = Inl credentials_exception
       \<and> route_update_task jwt cfg token task_id task_update db now = (Inl credentials_exception, db)
       \<and> route_delete_task jwt cfg token task_id db now = (Inl credentials_exception, db)"
proof -
  from assms(3) have "find (\<lambda>u. username u = name) (users db) = None"
    by (simp add: find_username_None)
  with get_current_user_subject [OF assms(1,2), of db]
  have g: "get_current_user jwt cfg token db now = Inl credentials_exception" by simp
  have bad: "\<forall>bad k. jwt_decode jwt bad (SECRET_KEY cfg) [ALGORITHM cfg] now = Inl (JWTError k) \<longrightarrow>
             get_current_user jwt cfg bad db now = get_current_user jwt cfg token db now"
    by (simp add: g get_current_user_rejects)
  from g bad show ?thesis
    by (simp add: route_create_task_def route_get_all_tasks_def route_get_task_by_id_def
        route_update_task_def route_delete_task_def credentials_exception_def)
qed

theorem unknown_subject_rejected_witness:
  "jwt_decode reference_jose carol_token (SECRET_KEY default_config) [ALGORITHM default_config] 20000
     = Inr [(''sub'', Str ''carol''), (''exp'', Num 1800)]
   \<and> map_of [(''sub'', Str ''carol''), (''exp'', Num 1800)] ''sub'' = Some (Str ''carol'')
   \<and> \<not> (\<exists>u \<in> set (users two_users). username u = ''carol'')
   \<and> get_current_user reference_jose default_config carol_token two_users 20000
       = Inl credentials_exception
   \<and> get_current_user reference_jose default_config forged_token two_users 20000
       = get_current_user reference_jose default_config carol_token two_users 20000
   \<and> route_get_task_by_id reference_jose default_config carol_token 1 two_users 20000
       = Inl credentials_exception
   \<and> route_delete_task reference_jose default_config carol_token 1 two_users 20000
       = (Inl credentials_exception, two_users)"
proof -
  have h1: "jwt_decode reference_jose carol_token (SECRET_KEY default_config)
              [ALGORITHM default_config] 20000 = Inr [(''sub'', Str ''carol''), (''exp'', Num 1800)]"
    by (simp add: reference_jose_def reference_decode_def carol_token_def default_config_def)
  have h2: "map_of [(''sub'', Str ''carol''), (''exp'', Num 1800)] ''sub'' = Some (Str ''carol'')"
    by simp
  have h3: "\<not> (\<exists>u \<in> set (users two_users). username u = ''carol'')"
    by (simp add: two_users_def alice_def bob_def)
  have d: "jwt_decode reference_jose forged_token (SECRET_KEY default_config)
              [ALGORITHM default_config] 20000 = Inl (JWTError InvalidToken)"
    by (simp add: reference_jose_def reference_decode_def forged_token_def default_config_def)
  from unknown_subject_rejected [OF h1 h2 h3, of call_mum 1 only_completed] d
  show ?thesis using h1 h2 h3 by (simp add: credentials_exception_def)
qed

section \<open>Partial update\<close>

lemma patched_fields:
  "title (fold setattr (model_dump_exclude_unset upd) task)
     = (case title_upd upd of Unset \<Rightarrow> title task | Given v \<Rightarrow> v)
   \<and> description (fold setattr (model_dump_exclude_unset upd) task)
     = (case description_upd upd of Unset \<Rightarrow> description task | Given v \<Rightarrow> v)
   \<and> is_completed (fold setattr (model_dump_exclude_unset upd) task)
     = (case is_completed_upd upd of Unset \<Rightarrow> is_completed task | Given v \<Rightarrow> v)"
  by (simp add: model_dump_exclude_unset_def split: field.splits)

lemma patch_only_completed:
  "fold setattr (model_dump_exclude_unset only_completed) task = task\<lparr>is_completed := Some True\<rparr>"
  by (simp add: model_dump_exclude_unset_def only_completed_def)

lemma update_task_frame:
  assumes "query_task task_id u db = Some task"
    and "fst (update_task task_id upd u db now) = Inr task'"
  shows "title task' = (case title_upd upd of Unset \<Rightarrow> title task | Given v \<Rightarrow> v)
       \<and> description task' = (case description_upd upd of Unset \<Rightarrow> description task | Given v \<Rightarrow> v)
       \<and> is_completed task' = (case is_completed_upd upd of Unset \<Rightarrow> is_completed task | Given v \<Rightarrow> v)
       \<and> id_task task' = id_task task \<and> user_id task' = user_id task
       \<and> created_at task' = created_at task"
proof -
  let ?t = "fold setattr (model_dump_exclude_unset upd) task"
  from assms have c: "fst (commit_update task ?t db now) = Inr task'"
    by (simp add: update_task_def Let_def)
  show ?thesis
  proof (cases "modified task ?t")
    case False
    with c have "task' = task" by (simp add: commit_update_def)
    moreover from False have "title ?t = title task" "description ?t = description task"
      "is_completed ?t = is_completed task" by (simp_all add: modified_def)
    ultimately show ?thesis using patched_fields [of upd task] by simp
  next
    case True
    with c have "task' = ?t\<lparr>updated_at := now\<rparr>"
      by (simp add: commit_update_def Let_def split: if_splits)
    then show ?thesis
      using patched_fields [of upd task] fold_setattr_frame [of "model_dump_exclude_unset upd" task]
      by simp
  qed
qed

text \<open>
  Claim C4, as stated, fails in two ways. On a task that is already completed the patch
  \<open>{"is_completed": true}\<close> changes no attribute, no UPDATE is sent and
  \<open>updated_at\<close> keeps its value, although the clock has moved on. And where the flag
  does change, \<open>updated_at\<close> becomes the clock reading of the commit, which is not
  greater than the previous value when the clock reads the same as it did then.
\<close>

theorem update_refresh_counterexample:
  "query_task 2 bob two_users = Some pay_rent
   \<and> updated_at pay_rent < 7000
   \<and> update_task 2 only_completed bob two_users 7000 = (Inr pay_rent, two_users)
   \<and> query_task 1 alice two_users = Some buy_milk
   \<and> fst (update_task 1 only_completed alice two_users 3000)
       = Inr (buy_milk\<lparr>is_completed := Some True\<rparr>)
   \<and> updated_at (buy_milk\<lparr>is_completed := Some True\<rparr>) = updated_at buy_milk"
proof -
  have q2: "query_task 2 bob two_users = Some pay_rent"
    by (simp add: query_task_def two_users_def buy_milk_def pay_rent_def bob_def)
  have q1: "query_task 1 alice two_users = Some buy_milk"
    by (simp add: query_task_def two_users_def buy_milk_def alice_def)
  have "\<not> modified pay_rent (pay_rent\<lparr>is_completed := Some True\<rparr>)"
    by (simp add: modified_def pay_rent_def)
  with q2 have u2: "update_task 2 only_completed bob two_users 7000 = (Inr pay_rent, two_users)"
    by (simp add: update_task_def patch_only_completed commit_update_def)
  have "modified buy_milk (buy_milk\<lparr>is_completed := Some True\<rparr>)"
    by (simp add: modified_def buy_milk_def)
  with q1 have u1: "fst (update_task 1 only_completed alice two_users 3000)
       = Inr (buy_milk\<lparr>is_completed := Some True\<rparr>)"
    by (simp add: update_task_def patch_only_completed commit_update_def Let_def buy_milk_def)
  from q1 q2 u1 u2 show ?thesis by (simp add: pay_rent_def)
qed

text \<open>
  Claim C4, amended. For a task that the caller owns, an update changes only the fields
  that the patch gives. The patch \<open>{"is_completed": true}\<close> on a task whose flag is
  not already true sets the flag, keeps the title, the description and the other
  columns, and sets \<open>updated_at\<close> to the clock reading of the commit, which is
  strictly greater than the previous value when the clock has passed it; the rows of
  the table with another key are untouched. On a task whose flag is already true the
  patch changes nothing, \<open>updated_at\<close> included.
\<close>

theorem partial_update_applies_patch_only:
  assumes "query_task task_id u db = Some task"
  shows "(\<forall>upd task'. fst (update_task task_id upd u db now) = Inr task' \<longrightarrow>
            title task' = (case title_upd upd of Unset \<Rightarrow> title task | Given v \<Rightarrow> v)
          \<and> description task' = (case description_upd upd of Unset \<Rightarrow> description task | Given v \<Rightarrow> v)
          \<and> is_completed task' = (case is_completed_upd upd of Unset \<Rightarrow> is_completed task | Given v \<Rightarrow> v))
       \<and> (is_completed task \<noteq> Some True \<longrightarrow>
            update_task task_id only_completed u db now
              = (Inr (task\<lparr>is_completed := Some True, updated_at := now\<rparr>),
                 db\<lparr>tasks := map (\<lambda>t. if id_task t = id_task task
                                        then task\<lparr>is_completed := Some True, updated_at := now\<rparr>
                                        else t) (tasks db)\<rparr>))
       \<and> (is_completed task \<noteq> Some True \<and> updated_at task < now \<longrightarrow>
            (\<exists>task'. fst (update_task task_id only_completed u db now) = Inr task'
               \<and> is_completed task' = Some True \<and> title task' = title task
               \<and> description task' = description task
               \<and> updated_at task < updated_at task'))
       \<and> (is_completed task = Some True \<longrightarrow>
            update_task task_id only_completed u db now = (Inr task, db))"
proof (intro conjI)
  show "\<forall>upd task'. fst (update_task task_id upd u db now) = Inr task' \<longrightarrow>
            title task' = (case title_upd upd of Unset \<Rightarrow> title task | Given v \<Rightarrow> v)
          \<and> description task' = (case description_upd upd of Unset \<Rightarrow> description task | Given v \<Rightarrow> v)
          \<and> is_completed task' = (case is_completed_upd upd of Unset \<Rightarrow> is_completed task | Given v \<Rightarrow> v)"
    using update_task_frame [OF assms] by blast
  have flip: "update_task task_id only_completed u db now
              = (Inr (task\<lparr>is_completed := Some True, updated_at := now\<rparr>),
                 db\<lparr>tasks := map (\<lambda>t. if id_task t = id_task task
                                        then task\<lparr>is_completed := Some True, updated_at := now\<rparr>
                                        else t) (tasks db)\<rparr>)"
    if "is_completed task \<noteq> Some True"
    using that assms
    by (simp add: update_task_def patch_only_completed commit_update_def modified_def Let_def)
  then show "is_completed task \<noteq> Some True \<longrightarrow>
            update_task task_id only_completed u db now
              = (Inr (task\<lparr>is_completed := Some True, updated_at := now\<rparr>),
                 db\<lparr>tasks := map (\<lambda>t. if id_task t = id_task task
                                        then task\<lparr>is_completed := Some True, updated_at := now\<rparr>
                                        else t) (tasks db)\<rparr>)"
    by blast
  show "is_completed task \<noteq> Some True \<and> updated_at task < now \<longrightarrow>
            (\<exists>task'. fst (update_task task_id only_completed u db now) = Inr task'
               \<and> is_completed task' = Some True \<and> title task' = title task
               \<and> description task' = description task
               \<and> updated_at task < updated_at task')"
    using flip by simp
  show "is_completed task = Some True \<longrightarrow>
            update_task task_id only_completed u db now = (Inr task, db)"
    using assms
    by (simp add: update_task_def patch_only_completed commit_update_def modified_def)
qed

theorem partial_update_applies_patch_only_witness:
  "query_task 1 alice two_users = Some buy_milk
   \<and> is_completed buy_milk \<noteq> Some True \<and> updated_at buy_milk < 7000
   \<and> update_task 1 only_completed alice two_users 7000
       = (Inr (buy_milk\<lparr>is_completed := Some True, updated_at := 7000\<rparr>),
          \<lparr>users = [alice, bob],
           tasks = [buy_milk\<lparr>is_completed := Some True, updated_at := 7000\<rparr>, pay_rent]\<rparr>)
   \<and> title (buy_milk\<lparr>is_completed := Some True, updated_at := 7000\<rparr>) = Some ''Buy milk''
   \<and> description (buy_milk\<lparr>is_completed := Some True, updated_at := 7000\<rparr>) = None"
proof -
  have q: "query_task 1 alice two_users = Some buy_milk"
    by (simp add: query_task_def two_users_def buy_milk_def alice_def)
  have h: "is_completed buy_milk \<noteq> Some True" "updated_at buy_milk < 7000"
    by (simp_all add: buy_milk_def)
  from partial_update_applies_patch_only [OF q, of 7000] h
  have "update_task 1 only_completed alice two_users 7000
       = (Inr (buy_milk\<lparr>is_completed := Some True, updated_at := 7000\<rparr>),
          two_users\<lparr>tasks := map (\<lambda>t. if id_task t = id_task buy_milk
                                        then buy_milk\<lparr>is_completed := Some True, updated_at := 7000\<rparr>
                                        else t) (tasks two_users)\<rparr>)"
    by blast
  then show ?thesis using q h
    by (simp add: two_users_def buy_milk_def pay_rent_def)
qed

section \<open>What a response shows of a user\<close>

text \<open>
  Claim C7. The body made from a user has exactly the keys \<open>username\<close>, \<open>email\<close>,
  \<open>id\<close> and \<open>created_at\<close>, and it is the same body whatever the stored digest is.
  The body of a successful registration is determined by the username and the email of
  the request, the key given to the row and the clock: neither the plaintext password
  nor the digest has a part in it. The body of \<open>/api/auth/me\<close> is made of these four
  columns of a row of users.
\<close>

theorem user_response_hides_password:
  "map fst (UserResponse_json (UserResponse_from_attributes user))
     = [''username'', ''email'', ''id'', ''created_at'']
   \<and> UserResponse_json (UserResponse_from_attributes (user\<lparr>hashed_password := h\<rparr>))
     = UserResponse_json (UserResponse_from_attributes user)
   \<and> (\<forall>body db'. route_register password_context new db now salt = (Inr body, db') \<longrightarrow>
         body = [(''username'', Str (username_new new)), (''email'', Str (email_new new)),
                 (''id'', Num (next_pk (map id_user (users db)))),
                 (''created_at'', DateTime now)])
   \<and> (\<forall>body. route_me jwt cfg token db now = Inr body \<longrightarrow>
         (\<exists>u \<in> set (users db).
            body = [(''username'', Str (username u)), (''email'', Str (email u)),
                    (''id'', Num (id_user u)), (''created_at'', DateTime (created_at_user u))]))"
proof (intro conjI allI impI)
  show "map fst (UserResponse_json (UserResponse_from_attributes user))
     = [''username'', ''email'', ''id'', ''created_at'']"
    by (simp add: UserResponse_json_def)
  show "UserResponse_json (UserResponse_from_attributes (user\<lparr>hashed_password := h\<rparr>))
     = UserResponse_json (UserResponse_from_attributes user)"
    by (simp add: UserResponse_from_attributes_def)
next
  fix body db'
  assume r: "route_register password_context new db now salt = (Inr body, db')"
  show "body = [(''username'', Str (username_new new)), (''email'', Str (email_new new)),
                 (''id'', Num (next_pk (map id_user (users db)))),
                 (''created_at'', DateTime now)]"
  proof (cases "\<exists>u \<in> set (users db). username u = username_new new \<or> email u = email_new new")
    case True
    from register_user_taken [OF this, of password_context now salt] r
    show ?thesis by (auto simp: route_register_def)
  next
    case unused: False
    show ?thesis
    proof (cases "hash_password password_context (password_new new) salt")
      case (Inl e)
      from register_user_hash_raises [OF unused this, of now] r
      show ?thesis by (simp add: route_register_def)
    next
      case (Inr d)
      from register_user_fresh [OF unused this, of now] r
      show ?thesis
        by (auto simp: route_register_def UserResponse_json_def UserResponse_from_attributes_def)
    qed
  qed
next
  fix body
  assume r: "route_me jwt cfg token db now = Inr body"
  then obtain u where u: "get_current_user jwt cfg token db now = Inr u"
    and b: "body = UserResponse_json (UserResponse_from_attributes u)"
    by (auto simp: route_me_def get_current_user_info_def split: sum.splits)
  from u have "u \<in> set (users db)"
    by (auto simp: get_current_user_def find_Some_iff
        split: sum.splits error.splits option.splits json.splits)
  with b show "\<exists>u \<in> set (users db).
            body = [(''username'', Str (username u)), (''email'', Str (email u)),
                    (''id'', Num (id_user u)), (''created_at'', DateTime (created_at_user u))]"
    by (auto simp: UserResponse_json_def UserResponse_from_attributes_def)
qed

theorem user_response_hides_password_witness:
  "route_register reference_context carol_new two_users 9000 ''abcdefghijklmnopqrstuv''
     = (Inr [(''username'', Str ''carol''), (''email'', Str ''c@x.com''), (''id'', Num 3),
             (''created_at'', DateTime 9000)],
        two_users\<lparr>users := [alice, bob,
          \<lparr>id_user = 3, username = ''carol'', email = ''c@x.com'',
           hashed_password = ''$2b$12$abcdefghijklmnopqrstuvs3cret!'', created_at_user = 9000\<rparr>]\<rparr>)
   \<and> route_me reference_jose default_config alice_token two_users 20000
     = Inr [(''username'', Str ''alice''), (''email'', Str ''a@x.com''), (''id'', Num 1),
            (''created_at'', DateTime 1000)]"
proof -
  have unused: "\<not> (\<exists>u \<in> set (users two_users).
           username u = username_new carol_new \<or> email u = email_new carol_new)"
    by (simp add: two_users_def alice_def bob_def carol_new_def)
  have ok: "hash_password reference_context (password_new carol_new) ''abcdefghijklmnopqrstuv''
              = Inr ''$2b$12$abcdefghijklmnopqrstuvs3cret!''"
    by (simp add: hash_password_def reference_context_def reference_hash_def carol_new_def)
  have pk: "next_pk (map id_user (users two_users)) = 3"
    by (simp add: next_pk_def two_users_def alice_def bob_def)
  have reg: "route_register reference_context carol_new two_users 9000 ''abcdefghijklmnopqrstuv''
     = (Inr (UserResponse_json (UserResponse_from_attributes
          \<lparr>id_user = 3, username = ''carol'', email = ''c@x.com'',
           hashed_password = ''$2b$12$abcdefghijklmnopqrstuvs3cret!'', created_at_user = 9000\<rparr>)),
        two_users\<lparr>users := [alice, bob,
          \<lparr>id_user = 3, username = ''carol'', email = ''c@x.com'',
           hashed_password = ''$2b$12$abcdefghijklmnopqrstuvs3cret!'', created_at_user = 9000\<rparr>]\<rparr>)"
    using register_user_fresh [OF unused ok, of 9000] pk
    by (simp add: route_register_def carol_new_def two_users_def)
  have me: "get_current_user reference_jose default_config alice_token two_users 20000 = Inr alice"
    by (simp add: get_current_user_def reference_jose_def reference_decode_def alice_token_def
        default_config_def two_users_def alice_def)
  then have me': "route_me reference_jose default_config alice_token two_users 20000
      = Inr (UserResponse_json (UserResponse_from_attributes alice))"
    by (simp add: route_me_def get_current_user_info_def)
  note inst = user_response_hides_password [where new = carol_new and db = two_users
      and password_context = reference_context and now = 9000 and salt = "''abcdefghijklmnopqrstuv''"
      and jwt = reference_jose and cfg = default_config and token = alice_token]
  from inst reg pk have "fst (route_register reference_context carol_new two_users 9000 ''abcdefghijklmnopqrstuv'')
     = Inr [(''username'', Str ''carol''), (''email'', Str ''c@x.com''), (''id'', Num 3),
             (''created_at'', DateTime 9000)]"
    by (simp add: carol_new_def)
  with reg me' show ?thesis
    by (simp add: UserResponse_json_def UserResponse_from_attributes_def alice_def)
qed

section \<open>A digest that the hasher cannot read\<close>




section \<open>Deleting a user and its tasks\<close>

text \<open>
  Claim C9. After a user is deleted no task owned by that user is left, the user's row
  is gone, and the tasks of every other user are the rows they were, in the same order.
\<close>

theorem delete_user_cascade:
  "(\<forall>t \<in> set (tasks (delete_user user db)). user_id t \<noteq> id_user user)
   \<and> (\<forall>u \<in> set (users (delete_user user db)). id_user u \<noteq> id_user user)
   \<and> (\<forall>t \<in> set (tasks db). user_id t \<noteq> id_user user \<longrightarrow> t \<in> set (tasks (delete_user user db)))
   \<and> filter (\<lambda>t. user_id t \<noteq> id_user user) (tasks (delete_user user db))
       = filter (\<lambda>t. user_id t \<noteq> id_user user) (tasks db)"
  by (simp add: delete_user_def)

theorem delete_user_cascade_witness:
  "delete_user alice two_users = \<lparr>users = [bob], tasks = [pay_rent]\<rparr>
   \<and> buy_milk \<notin> set (tasks (delete_user alice two_users))
   \<and> pay_rent \<in> set (tasks (delete_user alice two_users))"
proof -
  have d: "delete_user alice two_users = \<lparr>users = [bob], tasks = [pay_rent]\<rparr>"
    by (simp add: delete_user_def two_users_def alice_def bob_def buy_milk_def pay_rent_def)
  have m: "buy_milk \<in> set (tasks two_users)" "pay_rent \<in> set (tasks two_users)"
    "user_id buy_milk = id_user alice" "user_id pay_rent \<noteq> id_user alice"
    by (simp_all add: two_users_def buy_milk_def pay_rent_def alice_def)
  from delete_user_cascade [of alice two_users] m d show ?thesis by auto
qed

section \<open>The constraints of the tables are invariants\<close>

lemma constraints_initially: "pk_unique \<lparr>users = [], tasks = []\<rparr> \<and> names_unique \<lparr>users = [], tasks = []\<rparr>"
  by (simp add: pk_unique_def names_unique_def)

lemma create_task_keeps_constraints:
  assumes "pk_unique db" "names_unique db"
  shows "pk_unique (snd (create_task task u db now)) \<and> names_unique (snd (create_task task u db now))"
  using assms next_pk_fresh [of "map id_task (tasks db)"]
  by (simp add: create_task_def pk_unique_def names_unique_def Let_def)

lemma replace_row_keys:
  "id_task row = i \<Longrightarrow> map id_task (map (\<lambda>t. if id_task t = i then row else t) ts) = map id_task ts"
  by (induction ts) auto

lemma commit_update_keys:
  assumes "id_task task = id_task loaded"
  shows "map id_task (tasks (snd (commit_update loaded task db now))) = map id_task (tasks db)"
proof -
  have "id_task (task\<lparr>updated_at := now\<rparr>) = id_task loaded" using assms by simp
  from replace_row_keys [OF this, of "tasks db"] show ?thesis
    by (simp add: commit_update_def Let_def del: map_map)
qed

lemma update_task_keeps_constraints:
  assumes "pk_unique db" "names_unique db"
  shows "pk_unique (snd (update_task task_id upd u db now))
       \<and> names_unique (snd (update_task task_id upd u db now))"
proof (cases "query_task task_id u db")
  case None
  with assms show ?thesis by (simp add: update_task_def)
next
  case (Some task)
  have "id_task (fold setattr (model_dump_exclude_unset upd) task) = id_task task"
    using fold_setattr_frame [of "model_dump_exclude_unset upd" task] by simp
  from commit_update_keys [OF this, of db now] assms Some update_task_users [of task_id upd u db now]
  show ?thesis
    by (simp add: update_task_def pk_unique_def names_unique_def Let_def)
qed

lemma delete_task_keeps_constraints:
  assumes "pk_unique db" "names_unique db"
  shows "pk_unique (snd (delete_task task_id u db)) \<and> names_unique (snd (delete_task task_id u db))"
  using assms
  by (auto simp: delete_task_def pk_unique_def names_unique_def distinct_map_filter split: option.splits)

lemma register_user_keeps_constraints:
  assumes "pk_unique db" "names_unique db"
  shows "pk_unique (snd (register_user password_context user db now salt))
       \<and> names_unique (snd (register_user password_context user db now salt))"
proof (cases "\<exists>u \<in> set (users db). username u = username_new user \<or> email u = email_new user")
  case True
  from register_user_taken [OF this, of password_context now salt] assms show ?thesis by auto
next
  case unused: False
  show ?thesis
  proof (cases "hash_password password_context (password_new user) salt")
    case (Inl e)
    from register_user_hash_raises [OF unused this, of now] assms show ?thesis by simp
  next
    case (Inr h)
    from register_user_fresh [OF unused this, of now] unused assms
      next_pk_fresh [of "map id_user (users db)"]
    show ?thesis by (auto simp: pk_unique_def names_unique_def)
  qed
qed

lemma delete_user_keeps_constraints:
  assumes "pk_unique db" "names_unique db"
  shows "pk_unique (delete_user user db) \<and> names_unique (delete_user user db)"
  using assms by (simp add: delete_user_def pk_unique_def names_unique_def distinct_map_filter)

end
